theory Spec2Isabelle
  imports Main "HOL-Library.Multiset" "HOL-Library.Word"
begin

section \<open>cortex-tenant: the request processor (processor.go)\<close>

text \<open>
  A shallow embedding of \<^verbatim>\<open>processor.go\<close>. Go byte slices and strings are both
  \<open>string\<close> (a list of bytes). A Go \<^verbatim>\<open>error\<close> is the text of its \<^verbatim>\<open>Error()\<close>
  method; a nil error is \<open>None\<close>. Log calls (\<^verbatim>\<open>Warnf\<close>, \<^verbatim>\<open>Errorf\<close>) have no
  effect on the results and are left out, as are the counters \<^verbatim>\<open>samples\<close> and
  \<^verbatim>\<open>ok\<close> of \<^verbatim>\<open>handle\<close>, which only a commented-out debug line reads.
\<close>

subsection \<open>Data\<close>

type_synonym bytes = string

text \<open>\<^verbatim>\<open>prompb.Label\<close>, \<^verbatim>\<open>prompb.Sample\<close> (the float64 value kept as its 64 bits),
  \<^verbatim>\<open>prompb.TimeSeries\<close>.\<close>

record Label =
  Name :: string
  Value :: string

record Sample =
  SValue :: "64 word"
  Timestamp :: "64 word"

record TimeSeries =
  Labels :: "Label list"
  Samples :: "Sample list"

text \<open>
  \<^verbatim>\<open>processTimeseries\<close> takes a \<^verbatim>\<open>*prompb.TimeSeries\<close> and \<^verbatim>\<open>handle\<close> ranges over
  \<^verbatim>\<open>wrReqIn.Timeseries\<close> handing each element to it, so a write request holds pointers
  to its series. A pointer is an address, the store maps addresses to the series they
  point to, and a series is identified by its address, not by its value.
\<close>

type_synonym ptr = nat

type_synonym store = "ptr \<Rightarrow> TimeSeries"

record WriteRequest =
  Timeseries :: "ptr list"

text \<open>The fields of \<^verbatim>\<open>config\<close> that \<^verbatim>\<open>processor.go\<close> reads (\<^verbatim>\<open>cfg.Tenant.Label\<close>,
  \<^verbatim>\<open>cfg.Tenant.Default\<close>, \<^verbatim>\<open>cfg.Tenant.LabelRemove\<close>, \<^verbatim>\<open>cfg.Tenant.Header\<close>,
  \<^verbatim>\<open>cfg.Target\<close>). The type itself is declared in another file of the repository.\<close>

record tenant_config =
  Label :: string
  Default :: string
  LabelRemove :: bool
  Header :: string

record config =
  Tenant :: tenant_config
  Target :: string

subsection \<open>processTimeseries\<close>

text \<open>
  The loop of lines 187-193: \<^verbatim>\<open>tenant\<close> starts as the empty string and \<^verbatim>\<open>labelIdx\<close>
  as 0; the first label whose name is the tenant label sets both and ends the loop.
  The third argument is the index \<^verbatim>\<open>i\<close> of the head of the remaining labels.
\<close>

fun scan_labels :: "string \<Rightarrow> Label list \<Rightarrow> nat \<Rightarrow> string \<times> nat" where
  "scan_labels lbl [] i = ('''', 0)"
| "scan_labels lbl (l # ls) i =
     (if Name l = lbl then (Value l, i) else scan_labels lbl ls (Suc i))"

text \<open>
  Lines 195-205, on the series the pointer refers to: the result is the tenant and the
  series as the call leaves it. The removal overwrites slot \<^verbatim>\<open>labelIdx\<close> with the last
  label and cuts the last slot off. It is reached only with a non-empty tenant, that is
  after a label was found, so both index expressions are in range there
  (lemma \<open>scan_labels_in_range\<close>).
\<close>

definition processTimeseries :: "config \<Rightarrow> TimeSeries \<Rightarrow> string \<times> TimeSeries" where
  "processTimeseries c ts =
     (let (tenant, labelIdx) = scan_labels (Label (Tenant c)) (Labels ts) 0 in
      if tenant = '''' then (Default (Tenant c), ts)
      else if LabelRemove (Tenant c) then
        (let l = length (Labels ts) in
         (tenant, ts\<lparr>Labels := take (l - 1) ((Labels ts)[labelIdx := Labels ts ! (l - 1)])\<rparr>))
      else (tenant, ts))"

subsection \<open>Requests, responses and results\<close>

text \<open>What \<^verbatim>\<open>handle\<close> reads of the \<^verbatim>\<open>fasthttp.RequestCtx\<close>: \<^verbatim>\<open>ctx.Path()\<close>,
  \<^verbatim>\<open>ctx.Request.Header.Method()\<close>, \<^verbatim>\<open>ctx.Request.Body()\<close>, \<^verbatim>\<open>ctx.RemoteAddr()\<close>.\<close>

record request =
  Path :: bytes
  Method :: bytes
  Body :: bytes
  RemoteAddr :: string

text \<open>What the client gets back: the status code and the body of \<^verbatim>\<open>ctx.Response\<close>.\<close>

record response =
  status :: int
  resp_body :: bytes

text \<open>The response of a context no handler has written to: fasthttp reports status 200
  for it and sends no body.\<close>

definition fresh_response :: response where
  "fresh_response = \<lparr>status = 200, resp_body = []\<rparr>"

text \<open>\<^verbatim>\<open>ctx.Error(msg, statusCode)\<close> drops what the response held, and sets the status
  code and the message as a plain-text body.\<close>

definition ctx_Error :: "string \<Rightarrow> int \<Rightarrow> response" where
  "ctx_Error msg statusCode = \<lparr>status = statusCode, resp_body = msg\<rparr>"

definition StatusBadRequest :: int where "StatusBadRequest = 400"
definition StatusNotFound :: int where "StatusNotFound = 404"
definition StatusInternalServerError :: int where "StatusInternalServerError = 500"
definition StatusServiceUnavailable :: int where "StatusServiceUnavailable = 503"

text \<open>\<^verbatim>\<open>type result struct { code int; body []byte; err error }\<close> and its zero value.\<close>

record result =
  code :: int
  body :: bytes
  err :: "string option"

definition zero_result :: result where
  "zero_result = \<lparr>code = 0, body = [], err = None\<rparr>"

text \<open>The fields of \<^verbatim>\<open>processor\<close> that carry state: the configuration and the
  \<^verbatim>\<open>uint32\<close> flag \<^verbatim>\<open>shuttingDown\<close>.\<close>

record processor =
  cfg :: config
  shuttingDown :: "32 word"

subsection \<open>Collaborators\<close>

text \<open>The outbound request \<^verbatim>\<open>send\<close> builds: the method, the headers as the sequence
  of its \<^verbatim>\<open>req.Header.Set\<close> calls, the URI and the body.\<close>

record out_request =
  out_method :: string
  out_headers :: "(string \<times> string) list"
  out_uri :: string
  out_body :: bytes

text \<open>
  The libraries \<^verbatim>\<open>processor.go\<close> calls are parameters of the model: \<^verbatim>\<open>snappy.Decode\<close>
  and \<^verbatim>\<open>proto.Unmarshal\<close> (the latter giving the decoded series in order), each failing
  with the text of its error (\<open>Inl\<close>); the wire bytes protobuf serialises a list of series
  to; \<^verbatim>\<open>snappy.Encode\<close>, which returns no error; \<^verbatim>\<open>cli.Do\<close>, failing with the text of
  its error or giving what \<^verbatim>\<open>resp.Header.StatusCode()\<close> and \<^verbatim>\<open>resp.Body()\<close> report
  afterwards; \<^verbatim>\<open>uuid.NewRandom\<close>; and the order in which the Go runtime lets \<^verbatim>\<open>range\<close>
  visit the entries of a map. \<open>grown_len\<close> is the number of bytes the slice of a leased
  buffer holds after \<^verbatim>\<open>buf.grow()\<close>; \<^verbatim>\<open>grow\<close> is declared in another file of the
  repository.
\<close>

record env =
  snappy_Decode :: "bytes \<Rightarrow> string + bytes"
  proto_Unmarshal :: "bytes \<Rightarrow> string + TimeSeries list"
  proto_Marshal :: "TimeSeries list \<Rightarrow> bytes"
  grown_len :: nat
  snappy_Encode :: "bytes \<Rightarrow> bytes"
  cli_Do :: "out_request \<Rightarrow> string + int \<times> bytes"
  uuid_NewRandom :: string
  map_range :: "(string \<rightharpoonup> WriteRequest) \<Rightarrow> (string \<times> WriteRequest) list"

text \<open>A \<^verbatim>\<open>range\<close> over a Go map visits every entry once, in an order of the runtime's
  choice: the visited sequence has the map's keys without repetition and the map's
  values.\<close>

definition enumerates :: "(string \<times> WriteRequest) list \<Rightarrow> (string \<rightharpoonup> WriteRequest) \<Rightarrow> bool" where
  "enumerates it m \<longleftrightarrow> distinct (map fst it) \<and> map_of it = m"

text \<open>
  A Go panic. \<^verbatim>\<open>processor.go\<close> has no \<^verbatim>\<open>recover\<close>, and a panic in a goroutine that
  nothing recovers ends the process once the deferred calls of that goroutine have run:
  the functions on the way return nothing.
\<close>

datatype panic = SliceBoundsOutOfRange

text \<open>
  \<^verbatim>\<open>wr.MarshalTo(buf)\<close>, the generated marshaller of the write request, on the series the
  request points to and a buffer of the given length. It writes the wire bytes into the
  buffer and returns them (as \<^verbatim>\<open>buf[:l]\<close>) with a nil error; it panics when the wire
  bytes need more room than the buffer has. It returns no other error.
\<close>

definition MarshalTo :: "env \<Rightarrow> TimeSeries list \<Rightarrow> nat \<Rightarrow> panic + bytes \<times> string option" where
  "MarshalTo e vs room =
     (if length (proto_Marshal e vs) \<le> room then Inr (proto_Marshal e vs, None)
      else Inl SliceBoundsOutOfRange)"

text \<open>
  What \<^verbatim>\<open>handle\<close> and \<^verbatim>\<open>send\<close> change outside their results: the number of buffers
  leased from \<^verbatim>\<open>bufferPool\<close> and not yet put back, and the outbound calls issued so far.
\<close>

record world =
  outstanding :: int
  calls :: "out_request list"

text \<open>Modelled from the spec: \<^verbatim>\<open>bufferPool\<close> is declared in another file of the
  repository. Section 4.6 gives its contract as \<^verbatim>\<open>lease() -> LeasedBuffer\<close> and
  \<^verbatim>\<open>release(LeasedBuffer)\<close> with a total outstanding count; \<^verbatim>\<open>bufferPool.Get()\<close> is the
  lease and \<^verbatim>\<open>bufferPool.Put(buf)\<close> the release. \<^verbatim>\<open>buf.grow()\<close> resizes the leased buffer
  and leaves the count alone.\<close>

definition bufferPool_Get :: "world \<Rightarrow> world" where
  "bufferPool_Get w = w\<lparr>outstanding := outstanding w + 1\<rparr>"

definition bufferPool_Put :: "world \<Rightarrow> world" where
  "bufferPool_Put w = w\<lparr>outstanding := outstanding w - 1\<rparr>"

subsection \<open>send\<close>

text \<open>
  Lines 208-253. The two buffers are leased and grown first; the deferred function puts
  both back on every way out, a panic included, so the world is given on that way too.
  \<^verbatim>\<open>MarshalTo\<close> writes into \<^verbatim>\<open>buf1.b\<close>: it panics there when the partition does not fit,
  and an error it returned would be returned with the zero code and body (line 227).
  The test after \<^verbatim>\<open>snappy.Encode\<close> (line 231) reads the same \<^verbatim>\<open>err\<close>, which is nil
  there, so it never returns. \<^verbatim>\<open>cli.Do\<close> failing returns the error; otherwise the
  downstream's status code and a copy of its body are returned.
\<close>

definition send ::
  "env \<Rightarrow> processor \<Rightarrow> store \<Rightarrow> string \<Rightarrow> string \<Rightarrow> string \<Rightarrow> WriteRequest \<Rightarrow> world \<Rightarrow>
   (panic + result) \<times> world" where
  "send e p h ip reqID tenant wr w =
     (let w1 = bufferPool_Get (bufferPool_Get w);
          deferred = (\<lambda>w'. bufferPool_Put (bufferPool_Put w'))
      in case MarshalTo e (map h (Timeseries wr)) (grown_len e) of
           Inl pn \<Rightarrow> (Inl pn, deferred w1)
         | Inr (buf1, er) \<Rightarrow>
             if er \<noteq> None then (Inr \<lparr>code = 0, body = [], err = er\<rparr>, deferred w1)
             else
               (let buf2 = snappy_Encode e buf1;
                    req = \<lparr>out_method = ''POST'',
                           out_headers =
                             [(''Content-Encoding'', ''snappy''),
                              (''Content-Type'', ''application/x-protobuf''),
                              (''X-Prometheus-Remote-Write-Version'', ''0.1.0''),
                              (''X-Cortex-Tenant-Src'', ip),
                              (''X-Cortex-Tenant-ReqID'', reqID),
                              (Header (Tenant (cfg p)), tenant)],
                           out_uri = Target (cfg p),
                           out_body = buf2\<rparr>;
                    w2 = w1\<lparr>calls := calls w1 @ [req]\<rparr>
                in case cli_Do e req of
                     Inl er' \<Rightarrow> (Inr \<lparr>code = 0, body = [], err = Some er'\<rparr>, deferred w2)
                   | Inr (sc, b) \<Rightarrow> (Inr \<lparr>code = sc, body = b, err = None\<rparr>, deferred w2)))"

subsection \<open>dispatch\<close>

text \<open>
  Lines 163-184. \<^verbatim>\<open>res\<close> is made with \<^verbatim>\<open>len(m)\<close> zero results; the \<^verbatim>\<open>range\<close> over the map
  starts one goroutine per entry, numbered \<^verbatim>\<open>i\<close> from 0, which stores the outcome of
  \<^verbatim>\<open>send\<close> in \<^verbatim>\<open>res[i]\<close>; \<^verbatim>\<open>wg.Wait()\<close> returns when all have finished. Every goroutine
  writes a slot of its own, so the result does not depend on how they interleave, and
  the model runs them in the order they are started. A \<^verbatim>\<open>range\<close> visits \<^verbatim>\<open>len(m)\<close>
  entries, so \<^verbatim>\<open>i\<close> stays below the length of \<^verbatim>\<open>res\<close> (lemma \<open>enumerates_length\<close>).
  When \<^verbatim>\<open>send\<close> panics in one of the goroutines the process ends and \<^verbatim>\<open>dispatch\<close>
  returns nothing.
\<close>

fun dispatch_loop ::
  "env \<Rightarrow> processor \<Rightarrow> store \<Rightarrow> string \<Rightarrow> string \<Rightarrow> (string \<times> WriteRequest) list \<Rightarrow> nat \<Rightarrow>
   result list \<times> world \<Rightarrow> panic + result list \<times> world" where
  "dispatch_loop e p h ip reqID [] i (res, w) = Inr (res, w)"
| "dispatch_loop e p h ip reqID ((tenant, wrReq) # rest) i (res, w) =
     (case send e p h ip reqID tenant wrReq w of
        (Inl pn, w') \<Rightarrow> Inl pn
      | (Inr r, w') \<Rightarrow> dispatch_loop e p h ip reqID rest (Suc i) (res[i := r], w'))"

definition dispatch ::
  "env \<Rightarrow> processor \<Rightarrow> store \<Rightarrow> string \<Rightarrow> string \<Rightarrow> (string \<rightharpoonup> WriteRequest) \<Rightarrow> world \<Rightarrow>
   panic + result list \<times> world" where
  "dispatch e p h ip reqID m w =
     dispatch_loop e p h ip reqID (map_range e m) 0 (replicate (card (dom m)) zero_result, w)"

subsection \<open>handle\<close>

text \<open>
  Lines 117-132, the loop that builds the per-tenant write requests: each series goes
  through \<^verbatim>\<open>processTimeseries\<close>, which may rewrite it in the store, and its pointer is
  appended to the write request of its tenant, created empty on first use. The map holds
  the only reference to each write request, so it holds the request itself here.
\<close>

fun partition_loop ::
  "config \<Rightarrow> ptr list \<Rightarrow> store \<times> (string \<rightharpoonup> WriteRequest) \<Rightarrow> store \<times> (string \<rightharpoonup> WriteRequest)" where
  "partition_loop c [] (h, m) = (h, m)"
| "partition_loop c (ts # rest) (h, m) =
     (let (tenant, v) = processTimeseries c (h ts);
          h' = h(ts := v);
          wrReqOut = (case m tenant of None \<Rightarrow> \<lparr>Timeseries = []\<rparr> | Some wr \<Rightarrow> wr)
      in partition_loop c rest
           (h', m(tenant \<mapsto> wrReqOut\<lparr>Timeseries := Timeseries wrReqOut @ [ts]\<rparr>)))"

text \<open>
  Lines 134-150, the loop over the results. The state is \<^verbatim>\<open>err\<close> and \<^verbatim>\<open>res\<close>: a result
  with an error overwrites \<^verbatim>\<open>err\<close>; a result with a code outside 200..299 is kept in
  \<^verbatim>\<open>res\<close> when \<^verbatim>\<open>res.code\<close> is still 0.
\<close>

fun collect :: "result list \<Rightarrow> string option \<times> result \<Rightarrow> string option \<times> result" where
  "collect [] (er, res) = (er, res)"
| "collect (r # rs) (er, res) =
     (if err r \<noteq> None then collect rs (err r, res)
      else if code r < 200 \<or> code r > 299 then collect rs (er, if code res = 0 then r else res)
      else collect rs (er, res))"

text \<open>Lines 152-157, writing the response.\<close>

definition respond :: "string option \<times> result \<Rightarrow> response \<Rightarrow> response" where
  "respond st ctx =
     (case fst st of
        Some msg \<Rightarrow> ctx_Error msg StatusInternalServerError
      | None \<Rightarrow>
          if code (snd st) \<noteq> 0 then ctx\<lparr>status := code (snd st), resp_body := body (snd st)\<rparr>
          else ctx)"

text \<open>\<^verbatim>\<open>proto.Unmarshal\<close> allocates one series per decoded entry: the store after it
  holds entry \<open>i\<close> at address \<open>i\<close>, and \<^verbatim>\<open>wrReqIn.Timeseries\<close> is the list of these
  addresses.\<close>

definition unmarshalled :: "TimeSeries list \<Rightarrow> store" where
  "unmarshalled vs = (\<lambda>a. if a < length vs then vs ! a else \<lparr>Labels = [], Samples = []\<rparr>)"

text \<open>
  Lines 73-161. The buffer is leased after the checks of path and method, and the
  deferred \<^verbatim>\<open>bufferPool.Put\<close> runs on each return after that. When a goroutine of
  \<^verbatim>\<open>dispatch\<close> panics the process ends: \<^verbatim>\<open>handle\<close> does not return and the client gets no
  response.
\<close>

definition handle :: "env \<Rightarrow> processor \<Rightarrow> request \<Rightarrow> world \<Rightarrow> panic + response \<times> world" where
  "handle e p ctx w =
     (if Path ctx = ''/alive'' then
        Inr (if shuttingDown p = 1 then fresh_response\<lparr>status := StatusServiceUnavailable\<rparr>
             else fresh_response, w)
      else if Method ctx \<noteq> ''POST'' then Inr (ctx_Error ''Expecting POST'' StatusBadRequest, w)
      else if Path ctx \<noteq> ''/push'' then Inr (ctx_Error ''Unknown URL'' StatusNotFound, w)
      else
        (let w1 = bufferPool_Get w in
         case snappy_Decode e (Body ctx) of
           Inl er \<Rightarrow>
             Inr (ctx_Error (''Unable to unpack Snappy: '' @ er) StatusBadRequest,
                  bufferPool_Put w1)
         | Inr decoded \<Rightarrow>
             (case proto_Unmarshal e decoded of
                Inl er \<Rightarrow>
                  Inr (ctx_Error (''Unable to unmarshal protobuf: '' @ er) StatusBadRequest,
                       bufferPool_Put w1)
              | Inr vs \<Rightarrow>
                  (let ip = RemoteAddr ctx;
                       reqID = uuid_NewRandom e;
                       (h, m) = partition_loop (cfg p) [0..<length vs] (unmarshalled vs, Map.empty)
                   in case dispatch e p h ip reqID m w1 of
                        Inl pn \<Rightarrow> Inl pn
                      | Inr (rs, w2) \<Rightarrow>
                          Inr (respond (collect rs (None, zero_result)) fresh_response,
                               bufferPool_Put w2)))))"

subsection \<open>newProcessor and close\<close>

text \<open>Lines 36-71: a processor starts with the zero value of \<^verbatim>\<open>shuttingDown\<close>, unless
  \<^verbatim>\<open>net.Listen\<close> fails (its error is the second argument).\<close>

definition newProcessor :: "config \<Rightarrow> string option \<Rightarrow> string + processor" where
  "newProcessor c listen_err =
     (case listen_err of
        Some er \<Rightarrow> Inl er
      | None \<Rightarrow> Inr \<lparr>cfg = c, shuttingDown = 0\<rparr>)"

text \<open>Lines 255-262: \<^verbatim>\<open>close\<close> stores 1 in the flag, then sleeps and shuts the server
  down; the store is its only effect on the processor.\<close>

definition close :: "processor \<Rightarrow> processor" where
  "close p = p\<lparr>shuttingDown := 1\<rparr>"

text \<open>
  A run of the process: requests handled and \<^verbatim>\<open>close\<close> called, one after the other.
  The flag is read and written atomically, so a request is placed in the run where it
  loads the flag. The state is the processor, the world and the responses given so far.
  A request that makes the process panic ends the run: nothing comes after it.
\<close>

datatype event = Request request | Close

fun step ::
  "env \<Rightarrow> event \<Rightarrow> processor \<times> world \<times> response list \<Rightarrow> panic + processor \<times> world \<times> response list" where
  "step e (Request ctx) (p, w, out) =
     (case handle e p ctx w of
        Inl pn \<Rightarrow> Inl pn
      | Inr (r, w') \<Rightarrow> Inr (p, w', out @ [r]))"
| "step e Close (p, w, out) = Inr (close p, w, out)"

fun run ::
  "env \<Rightarrow> event list \<Rightarrow> processor \<times> world \<times> response list \<Rightarrow> panic + processor \<times> world \<times> response list" where
  "run e [] s = Inr s"
| "run e (ev # evs) s =
     (case step e ev s of
        Inl pn \<Rightarrow> Inl pn
      | Inr s' \<Rightarrow> run e evs s')"

subsection \<open>Example inputs\<close>

text \<open>A configuration with tenant label \<open>tenant\<close>, with and without removal of the
  label, and four series: one of tenant \<open>acme\<close>, one with no tenant label, one whose
  tenant label has the empty value, and one with two labels named \<open>tenant\<close>.\<close>

definition example_config :: "bool \<Rightarrow> config" where
  "example_config remove =
     \<lparr>Tenant = \<lparr>Label = ''tenant'', Default = ''fallback'', LabelRemove = remove,
                Header = ''X-Scope-OrgID''\<rparr>,
      Target = ''http://cortex:9009/push''\<rparr>"

definition series_acme :: TimeSeries where
  "series_acme =
     \<lparr>Labels = [\<lparr>Name = ''tenant'', Value = ''acme''\<rparr>, \<lparr>Name = ''job'', Value = ''node''\<rparr>,
                \<lparr>Name = ''zone'', Value = ''b''\<rparr>],
      Samples = [\<lparr>SValue = 1, Timestamp = 1000\<rparr>]\<rparr>"

definition series_plain :: TimeSeries where
  "series_plain =
     \<lparr>Labels = [\<lparr>Name = ''job'', Value = ''node''\<rparr>], Samples = [\<lparr>SValue = 2, Timestamp = 1000\<rparr>]\<rparr>"

definition series_empty_value :: TimeSeries where
  "series_empty_value =
     \<lparr>Labels = [\<lparr>Name = ''tenant'', Value = ''''\<rparr>, \<lparr>Name = ''job'', Value = ''node''\<rparr>],
      Samples = []\<rparr>"

definition series_two_tenants :: TimeSeries where
  "series_two_tenants =
     \<lparr>Labels = [\<lparr>Name = ''tenant'', Value = ''acme''\<rparr>, \<lparr>Name = ''job'', Value = ''node''\<rparr>,
                \<lparr>Name = ''tenant'', Value = ''umbrella''\<rparr>],
      Samples = []\<rparr>"

text \<open>Collaborators for the examples: the body \<open>snappy(batch)\<close> decompresses to a
  batch of two series, the body \<open>snappy(junk)\<close> to bytes that do not unmarshal, and no
  other body decompresses; a series is serialised to the names and values of its labels,
  and a leased buffer holds 64 bytes; the downstream answers 200 to tenant \<open>acme\<close> and
  503 to any other; the runtime visits the entry of \<open>acme\<close> before that of
  \<open>fallback\<close>.\<close>

definition example_env :: env where
  "example_env =
     \<lparr>snappy_Decode = (\<lambda>b. if b = ''snappy(batch)'' then Inr ''batch''
                            else if b = ''snappy(junk)'' then Inr ''junk''
                            else Inl ''snappy: corrupt input''),
      proto_Unmarshal = (\<lambda>b. if b = ''batch'' then Inr [series_acme, series_plain]
                              else Inl ''proto: illegal wireType 7''),
      proto_Marshal = (\<lambda>vs. concat (map (\<lambda>v. concat (map (\<lambda>l. Name l @ Value l) (Labels v))) vs)),
      grown_len = 64,
      snappy_Encode = (\<lambda>b. ''snappy('' @ b @ '')''),
      cli_Do = (\<lambda>req. if (''X-Scope-OrgID'', ''acme'') \<in> set (out_headers req)
                       then Inr (200, [])
                       else Inr (503, ''no ingesters'')),
      uuid_NewRandom = ''6ba7b810-9dad-41d1-80b4-00c04fd430c8'',
      map_range = (\<lambda>m. List.map_filter (\<lambda>k. map_option (Pair k) (m k)) [''acme'', ''fallback''])\<rparr>"

text \<open>The same with a downstream that cannot be reached for tenants other than
  \<open>acme\<close>, with a downstream that answers 200 to all, and with leased buffers of 8
  bytes, which the 12 bytes of the partition of \<open>acme\<close> do not fit.\<close>

definition unreachable_env :: env where
  "unreachable_env =
     example_env\<lparr>cli_Do := (\<lambda>req. if (''X-Scope-OrgID'', ''acme'') \<in> set (out_headers req)
                                    then Inr (200, [])
                                    else Inl ''dial tcp 10.0.0.1:9009: connection refused'')\<rparr>"

definition healthy_env :: env where
  "healthy_env = example_env\<lparr>cli_Do := (\<lambda>req. Inr (204, []))\<rparr>"

definition small_buffer_env :: env where
  "small_buffer_env = example_env\<lparr>grown_len := 8\<rparr>"

definition example_processor :: processor where
  "example_processor = \<lparr>cfg = example_config True, shuttingDown = 0\<rparr>"

definition example_world :: world where
  "example_world = \<lparr>outstanding = 0, calls = []\<rparr>"

definition push_request :: "bytes \<Rightarrow> request" where
  "push_request b = \<lparr>Path = ''/push'', Method = ''POST'', Body = b, RemoteAddr = ''10.0.0.7:4242''\<rparr>"

definition alive_request :: request where
  "alive_request = \<lparr>Path = ''/alive'', Method = ''GET'', Body = [], RemoteAddr = ''10.0.0.9:5151''\<rparr>"

text \<open>What the loop of \<^verbatim>\<open>handle\<close> makes of the batch of two series with the example
  configuration: the store after it (the tenant label of the first series removed) and
  the partition map.\<close>

definition example_store :: store where
  "example_store =
     (unmarshalled [series_acme, series_plain])
       (0 := \<lparr>Labels = [\<lparr>Name = ''zone'', Value = ''b''\<rparr>, \<lparr>Name = ''job'', Value = ''node''\<rparr>],
              Samples = [\<lparr>SValue = 1, Timestamp = 1000\<rparr>]\<rparr>,
        1 := series_plain)"

definition example_partitions :: "string \<rightharpoonup> WriteRequest" where
  "example_partitions = [''acme'' \<mapsto> \<lparr>Timeseries = [0]\<rparr>, ''fallback'' \<mapsto> \<lparr>Timeseries = [1]\<rparr>]"

section \<open>Properties of processTimeseries\<close>

lemma scan_labels_absent:
  "\<forall>l \<in> set ls. Name l \<noteq> lbl \<Longrightarrow> scan_labels lbl ls i = ('''', 0)"
  by (induction ls arbitrary: i) auto

lemma scan_labels_find:
  "find (\<lambda>l. Name l = lbl) ls = Some l0 \<Longrightarrow>
   \<exists>k. scan_labels lbl ls i = (Value l0, i + k) \<and> k < length ls \<and> ls ! k = l0
       \<and> (\<forall>j < k. Name (ls ! j) \<noteq> lbl)"
proof (induction ls arbitrary: i)
  case Nil
  then show ?case by simp
next
  case (Cons l ls)
  show ?case
  proof (cases "Name l = lbl")
    case True
    with Cons.prems have "l0 = l" by simp
    with True show ?thesis by (intro exI [of _ 0]) simp
  next
    case False
    with Cons.prems have "find (\<lambda>l. Name l = lbl) ls = Some l0" by simp
    from Cons.IH [OF this, of "Suc i"] obtain k where
      k: "scan_labels lbl ls (Suc i) = (Value l0, Suc i + k)" "k < length ls" "ls ! k = l0"
         "\<forall>j < k. Name (ls ! j) \<noteq> lbl"
      by blast
    have "\<forall>j < Suc k. Name ((l # ls) ! j) \<noteq> lbl"
      using False k(4) by (auto simp: nth_Cons split: nat.splits)
    with False k show ?thesis by (intro exI [of _ "Suc k"]) simp
  qed
qed

lemma scan_labels_in_range:
  "scan_labels lbl ls i = (tenant, idx) \<Longrightarrow> tenant \<noteq> '''' \<Longrightarrow>
   i \<le> idx \<and> idx - i < length ls \<and> Name (ls ! (idx - i)) = lbl \<and> Value (ls ! (idx - i)) = tenant"
proof (induction ls arbitrary: i)
  case Nil
  then show ?case by simp
next
  case (Cons l ls)
  show ?case
  proof (cases "Name l = lbl")
    case True
    with Cons.prems show ?thesis by simp
  next
    case False
    with Cons.prems have "scan_labels lbl ls (Suc i) = (tenant, idx)" by simp
    from Cons.IH [OF this Cons.prems(2)]
    have "Suc i \<le> idx" "idx - Suc i < length ls" "Name (ls ! (idx - Suc i)) = lbl"
      "Value (ls ! (idx - Suc i)) = tenant"
      by simp_all
    moreover from \<open>Suc i \<le> idx\<close> have "idx - i = Suc (idx - Suc i)" by simp
    ultimately show ?thesis by simp
  qed
qed

text \<open>
  C6. A series with no label named as the configured tenant label is assigned the
  configured default tenant key (and is left as it was).
\<close>

theorem processTimeseries_default_tenant:
  "\<forall>l \<in> set (Labels ts). Name l \<noteq> Label (Tenant c) \<Longrightarrow>
   processTimeseries c ts = (Default (Tenant c), ts)"
  by (simp add: processTimeseries_def scan_labels_absent)

theorem processTimeseries_default_tenant_witness:
  "Name \<lparr>Name = ''job'', Value = ''node''\<rparr> \<noteq> Label (Tenant (example_config True)) \<and>
   processTimeseries (example_config True) series_plain = (''fallback'', series_plain)"
  using processTimeseries_default_tenant [of series_plain "example_config True"]
  by (simp add: example_config_def series_plain_def)

text \<open>
  C10. When the first label named as the tenant label has the empty string as its value,
  the series is assigned the default tenant key and is left exactly as it was, also with
  removal of the tenant label enabled.
\<close>

theorem processTimeseries_empty_value:
  "find (\<lambda>l. Name l = Label (Tenant c)) (Labels ts) = Some l0 \<Longrightarrow> Value l0 = '''' \<Longrightarrow>
   processTimeseries c ts = (Default (Tenant c), ts)"
  using scan_labels_find [of "Label (Tenant c)" "Labels ts" l0 0]
  by (auto simp: processTimeseries_def)

theorem processTimeseries_empty_value_witness:
  "LabelRemove (Tenant (example_config True)) \<and>
   find (\<lambda>l. Name l = Label (Tenant (example_config True))) (Labels series_empty_value)
     = Some \<lparr>Name = ''tenant'', Value = ''''\<rparr> \<and>
   processTimeseries (example_config True) series_empty_value = (''fallback'', series_empty_value)"
  using processTimeseries_empty_value
    [of "example_config True" series_empty_value "\<lparr>Name = ''tenant'', Value = ''''\<rparr>"]
  by (simp add: example_config_def series_empty_value_def)

lemma mset_swap_remove:
  assumes "k < length xs"
  shows "mset (take (length xs - 1) (xs[k := xs ! (length xs - 1)])) = mset xs - {#xs ! k#}"
proof (cases xs rule: rev_cases)
  case Nil
  with assms show ?thesis by simp
next
  case (snoc ys v)
  show ?thesis
  proof (cases "k < length ys")
    case True
    then have "ys ! k \<in># mset ys" by simp
    with True snoc show ?thesis
      by (simp add: list_update_append nth_append mset_update)
  next
    case False
    with assms snoc have "k = length ys" by simp
    with snoc show ?thesis by (simp add: nth_append)
  qed
qed

text \<open>
  C3, as the code has it. With removal enabled, when the first label named as the
  tenant label has a non-empty value, that label is the tenant and is the one label
  taken out: the series has one label fewer, the other labels are all kept (in some
  order) and the samples are untouched; no label of that name is left when the series
  had only one. With removal disabled the series is unchanged.
\<close>

theorem processTimeseries_label_removal:
  "(LabelRemove (Tenant c) \<and> find (\<lambda>l. Name l = Label (Tenant c)) (Labels ts) = Some l0
      \<and> Value l0 \<noteq> '''' \<longrightarrow>
    fst (processTimeseries c ts) = Value l0 \<and>
    length (Labels (snd (processTimeseries c ts))) + 1 = length (Labels ts) \<and>
    mset (Labels (snd (processTimeseries c ts))) = mset (Labels ts) - {#l0#} \<and>
    Samples (snd (processTimeseries c ts)) = Samples ts \<and>
    (length (filter (\<lambda>l. Name l = Label (Tenant c)) (Labels ts)) = 1 \<longrightarrow>
       (\<forall>l \<in> set (Labels (snd (processTimeseries c ts))). Name l \<noteq> Label (Tenant c))))
   \<and> (\<not> LabelRemove (Tenant c) \<longrightarrow> snd (processTimeseries c ts) = ts)"
proof (intro conjI impI)
  assume "\<not> LabelRemove (Tenant c)"
  then show "snd (processTimeseries c ts) = ts"
    by (auto simp: processTimeseries_def split: prod.splits if_splits)
next
  let ?ts' = "snd (processTimeseries c ts)"
  let ?P = "\<lambda>l. Name l = Label (Tenant c)"
  assume a: "LabelRemove (Tenant c) \<and> find ?P (Labels ts) = Some l0 \<and> Value l0 \<noteq> ''''"
  then obtain k where k: "scan_labels (Label (Tenant c)) (Labels ts) 0 = (Value l0, k)"
      "k < length (Labels ts)" "Labels ts ! k = l0"
    using scan_labels_find [of "Label (Tenant c)" "Labels ts" l0 0] by auto
  from a k have t: "fst (processTimeseries c ts) = Value l0"
    and ts': "?ts' = ts\<lparr>Labels := take (length (Labels ts) - 1)
                 ((Labels ts)[k := Labels ts ! (length (Labels ts) - 1)])\<rparr>"
    by (auto simp: processTimeseries_def Let_def)
  show "fst (processTimeseries c ts) = Value l0" by (rule t)
  show "length (Labels ?ts') + 1 = length (Labels ts)" using k(2) by (simp add: ts')
  show m: "mset (Labels ?ts') = mset (Labels ts) - {#l0#}"
    using mset_swap_remove [OF k(2)] k(3) by (simp add: ts')
  show "Samples ?ts' = Samples ts" by (simp add: ts')
  from a have P: "?P l0" by (auto dest: find_Some_iff [THEN iffD1])
  {
    assume one: "length (filter ?P (Labels ts)) = 1"
    have "filter_mset ?P (mset (Labels ?ts')) = filter_mset ?P (mset (Labels ts)) - {#l0#}"
      using P by (simp add: m)
    moreover have "l0 \<in># filter_mset ?P (mset (Labels ts))"
      using k P by auto
    moreover have "size (filter_mset ?P (mset (Labels ts))) = 1"
      using one by (simp flip: mset_filter)
    ultimately have "size (filter_mset ?P (mset (Labels ?ts'))) = 0"
      by (simp add: size_Diff_singleton)
    then have "filter_mset ?P (mset (Labels ?ts')) = {#}"
      by simp
    then show "\<forall>l \<in> set (Labels ?ts'). Name l \<noteq> Label (Tenant c)"
      by auto
  }
qed

theorem processTimeseries_label_removal_witness:
  "LabelRemove (Tenant (example_config True)) \<and>
   find (\<lambda>l. Name l = Label (Tenant (example_config True))) (Labels series_acme)
     = Some \<lparr>Name = ''tenant'', Value = ''acme''\<rparr> \<and>
   length (filter (\<lambda>l. Name l = Label (Tenant (example_config True))) (Labels series_acme)) = 1 \<and>
   fst (processTimeseries (example_config True) series_acme) = ''acme'' \<and>
   length (Labels (snd (processTimeseries (example_config True) series_acme))) + 1
     = length (Labels series_acme) \<and>
   Labels (snd (processTimeseries (example_config True) series_acme))
     = [\<lparr>Name = ''zone'', Value = ''b''\<rparr>, \<lparr>Name = ''job'', Value = ''node''\<rparr>] \<and>
   \<not> LabelRemove (Tenant (example_config False)) \<and>
   snd (processTimeseries (example_config False) series_acme) = series_acme"
  using processTimeseries_label_removal
    [of "example_config True" series_acme "\<lparr>Name = ''tenant'', Value = ''acme''\<rparr>"]
    processTimeseries_label_removal
    [of "example_config False" series_acme "\<lparr>Name = ''tenant'', Value = ''acme''\<rparr>"]
  by (simp add: example_config_def series_acme_def processTimeseries_def)

text \<open>
  C3 as the specification states it fails twice. A series whose tenant label has the
  empty value keeps all its labels, that one included, with removal enabled; and of two
  labels named as the tenant label only the first is removed.
\<close>

theorem processTimeseries_label_removal_counterexample:
  "LabelRemove (Tenant (example_config True)) \<and>
   \<lparr>Name = ''tenant'', Value = ''''\<rparr> \<in> set (Labels series_empty_value) \<and>
   Labels (snd (processTimeseries (example_config True) series_empty_value))
     = Labels series_empty_value \<and>
   \<lparr>Name = ''tenant'', Value = ''acme''\<rparr> \<in> set (Labels series_two_tenants) \<and>
   Labels (snd (processTimeseries (example_config True) series_two_tenants))
     = [\<lparr>Name = ''tenant'', Value = ''umbrella''\<rparr>, \<lparr>Name = ''job'', Value = ''node''\<rparr>]"
  by (simp add: example_config_def series_empty_value_def series_two_tenants_def
      processTimeseries_def)

section \<open>Partitioning by tenant\<close>

lemma partition_loop_map:
  assumes "distinct tss"
  shows "snd (partition_loop c tss (h, m)) t =
     (let ps = filter (\<lambda>p. fst (processTimeseries c (h p)) = t) tss in
      case m t of
        None \<Rightarrow> if ps = [] then None else Some \<lparr>Timeseries = ps\<rparr>
      | Some wr \<Rightarrow> Some (wr\<lparr>Timeseries := Timeseries wr @ ps\<rparr>))"
  using assms
proof (induction tss arbitrary: h m)
  case Nil
  then show ?case by (simp split: option.splits)
next
  case (Cons p tss)
  obtain tenant v where pv: "processTimeseries c (h p) = (tenant, v)"
    by (cases "processTimeseries c (h p)")
  let ?h' = "h(p := v)"
  from Cons.prems have "p \<notin> set tss" "distinct tss" by simp_all
  then have f: "filter (\<lambda>q. fst (processTimeseries c (?h' q)) = t) tss
              = filter (\<lambda>q. fst (processTimeseries c (h q)) = t) tss"
    by (intro filter_cong) auto
  let ?wr = "case m tenant of None \<Rightarrow> \<lparr>Timeseries = []\<rparr> | Some wr \<Rightarrow> wr"
  let ?m' = "m(tenant \<mapsto> ?wr\<lparr>Timeseries := Timeseries ?wr @ [p]\<rparr>)"
  have step: "partition_loop c (p # tss) (h, m) = partition_loop c tss (?h', ?m')"
    by (simp add: pv Let_def)
  show ?case
  proof (cases "t = tenant")
    case True
    with pv show ?thesis
      unfolding step Cons.IH [OF \<open>distinct tss\<close>, of ?h' ?m'] f
      by (simp add: Let_def split: option.splits)
  next
    case False
    with pv show ?thesis
      unfolding step Cons.IH [OF \<open>distinct tss\<close>, of ?h' ?m'] f
      by (simp add: Let_def split: option.splits)
  qed
qed

lemma map_if_absent:
  "k0 \<notin> set ks \<Longrightarrow> map (\<lambda>k. if k0 = k then x # g k else g k) ks = map g ks"
  by (induction ks) auto

lemma concat_filter_keys_step:
  "distinct ks \<Longrightarrow> k0 \<in> set ks \<Longrightarrow>
   mset (concat (map (\<lambda>k. if k0 = k then x # g k else g k) ks))
     = add_mset x (mset (concat (map g ks)))"
  by (induction ks) (auto simp: map_if_absent)

lemma mset_concat_filter_keys:
  "distinct ks \<Longrightarrow> f ` set xs \<subseteq> set ks \<Longrightarrow>
   mset (concat (map (\<lambda>k. filter (\<lambda>x. f x = k) xs) ks)) = mset xs"
proof (induction xs)
  case Nil
  then show ?case by simp
next
  case (Cons x xs)
  have "map (\<lambda>k. filter (\<lambda>y. f y = k) (x # xs)) ks
      = map (\<lambda>k. if f x = k then x # filter (\<lambda>y. f y = k) xs else filter (\<lambda>y. f y = k) xs) ks"
    by simp
  with Cons concat_filter_keys_step [of ks "f x" x "\<lambda>k. filter (\<lambda>y. f y = k) xs"]
  show ?case by simp
qed

text \<open>
  C1. The loop of \<^verbatim>\<open>handle\<close> that builds the per-tenant write requests, run on the
  series of a decoded request (pointers to distinct series) from the empty map: however
  the entries of the resulting map are enumerated, the partitions together hold exactly
  the input's series, each once (as a multiset of pointers, and without repetition), and
  every partition is the input sequence restricted to the partition's members, that is
  in the input's relative order.
\<close>

theorem partition_complete_stable:
  assumes "distinct tss"
    and "enumerates it (snd (partition_loop c tss (h, Map.empty)))"
  shows "mset (concat (map (\<lambda>(t, wr). Timeseries wr) it)) = mset tss \<and>
         distinct (concat (map (\<lambda>(t, wr). Timeseries wr) it)) \<and>
         (\<forall>(t, wr) \<in> set it. Timeseries wr = filter (\<lambda>p. p \<in> set (Timeseries wr)) tss)"
proof -
  let ?tn = "\<lambda>p. fst (processTimeseries c (h p))"
  let ?m = "snd (partition_loop c tss (h, Map.empty))"
  have m: "?m t = (if filter (\<lambda>p. ?tn p = t) tss = [] then None
                   else Some \<lparr>Timeseries = filter (\<lambda>p. ?tn p = t) tss\<rparr>)" for t
    using partition_loop_map [OF assms(1), of c h Map.empty t] by (simp add: Let_def)
  from assms(2) have d: "distinct (map fst it)" and mo: "map_of it = ?m"
    by (simp_all add: enumerates_def)
  have part: "Timeseries wr = filter (\<lambda>p. ?tn p = t) tss" if "(t, wr) \<in> set it" for t wr
  proof -
    from that d have "map_of it t = Some wr" by simp
    with mo m [of t] show ?thesis by (auto split: if_splits)
  qed
  then have eq: "map (\<lambda>(t, wr). Timeseries wr) it
               = map (\<lambda>t. filter (\<lambda>p. ?tn p = t) tss) (map fst it)"
    by auto
  have "?tn ` set tss \<subseteq> set (map fst it)"
  proof
    fix t assume "t \<in> ?tn ` set tss"
    then have "filter (\<lambda>p. ?tn p = t) tss \<noteq> []" by (auto simp: filter_empty_conv)
    with m [of t] have "t \<in> dom ?m" by auto
    with mo show "t \<in> set (map fst it)" by (simp add: dom_map_of_conv_image_fst flip: mo)
  qed
  with d have u: "mset (concat (map (\<lambda>(t, wr). Timeseries wr) it)) = mset tss"
    unfolding eq by (rule mset_concat_filter_keys)
  moreover from u assms(1) have "distinct (concat (map (\<lambda>(t, wr). Timeseries wr) it))"
    by (metis mset_eq_imp_distinct_iff)
  moreover have "\<forall>(t, wr) \<in> set it. Timeseries wr = filter (\<lambda>p. p \<in> set (Timeseries wr)) tss"
  proof (clarify)
    fix t wr assume "(t, wr) \<in> set it"
    then have p: "Timeseries wr = filter (\<lambda>p. ?tn p = t) tss" by (rule part)
    have "filter (\<lambda>p. p \<in> set (filter (\<lambda>p. ?tn p = t) tss)) tss = filter (\<lambda>p. ?tn p = t) tss"
      by (intro filter_cong) auto
    with p show "Timeseries wr = filter (\<lambda>p. p \<in> set (Timeseries wr)) tss" by simp
  qed
  ultimately show ?thesis by blast
qed


section \<open>Examples of partitioning\<close>

lemma example_partition:
  "snd (partition_loop (example_config True) [0, 1, 2]
          (unmarshalled [series_acme, series_plain, series_two_tenants], Map.empty))
   = [''acme'' \<mapsto> \<lparr>Timeseries = [0, 2]\<rparr>, ''fallback'' \<mapsto> \<lparr>Timeseries = [1]\<rparr>]"
  by (auto simp: example_config_def unmarshalled_def series_acme_def series_plain_def
      series_two_tenants_def processTimeseries_def Let_def)

theorem partition_complete_stable_witness:
  "distinct [0, 1, 2 :: nat] \<and>
   enumerates [(''fallback'', \<lparr>Timeseries = [1]\<rparr>), (''acme'', \<lparr>Timeseries = [0, 2]\<rparr>)]
     (snd (partition_loop (example_config True) [0, 1, 2]
        (unmarshalled [series_acme, series_plain, series_two_tenants], Map.empty))) \<and>
   mset (concat (map (\<lambda>(t, wr). Timeseries wr)
           [(''fallback'', \<lparr>Timeseries = [1]\<rparr>), (''acme'', \<lparr>Timeseries = [0, 2]\<rparr>)]))
     = mset [0, 1, 2] \<and>
   concat (map (\<lambda>(t, wr). Timeseries wr)
      [(''fallback'', \<lparr>Timeseries = [1]\<rparr>), (''acme'', \<lparr>Timeseries = [0, 2]\<rparr>)]) = [1, 0, 2] \<and>
   Timeseries \<lparr>Timeseries = [0, 2]\<rparr> = filter (\<lambda>p. p \<in> set [0, 2]) [0, 1, 2]"
proof -
  have e: "enumerates [(''fallback'', \<lparr>Timeseries = [1]\<rparr>), (''acme'', \<lparr>Timeseries = [0, 2]\<rparr>)]
     (snd (partition_loop (example_config True) [0, 1, 2]
        (unmarshalled [series_acme, series_plain, series_two_tenants], Map.empty)))"
    unfolding example_partition by (auto simp: enumerates_def)
  have d: "distinct [0, 1, 2 :: nat]" by simp
  from partition_complete_stable [OF d e] e show ?thesis by simp
qed

section \<open>send and dispatch\<close>



lemma send_result_indep:
  "fst (send e p h ip reqID t wr w) = fst (send e p h ip reqID t wr w')"
  by (simp add: send_def MarshalTo_def Let_def split: sum.splits prod.splits)


lemma send_error_is_transport:
  assumes "fst (send e p h ip reqID t wr w) = Inr r" and "err r = Some msg"
  shows "\<exists>req. cli_Do e req = Inl msg"
  using assms
  by (auto simp: send_def MarshalTo_def Let_def split: sum.splits prod.splits if_splits)

lemma send_code_nonzero:
  assumes "\<And>req sc b. cli_Do e req = Inr (sc, b) \<Longrightarrow> sc \<noteq> 0"
    and "fst (send e p h ip reqID t wr w) = Inr r" and "err r = None"
  shows "code r \<noteq> 0"
  using assms
  by (auto simp: send_def MarshalTo_def Let_def split: sum.splits prod.splits if_splits)

lemma dispatch_loop_results:
  "dispatch_loop e p h ip reqID it i (res, w) = Inr (rs, w') \<Longrightarrow> i + length it \<le> length res \<Longrightarrow>
   map Inr rs
     = map Inr (take i res) @ map (\<lambda>(t, wr). fst (send e p h ip reqID t wr w0)) it
       @ map Inr (drop (i + length it) res)"
proof (induction it arbitrary: i res w)
  case Nil
  then show ?case by (simp flip: map_append)
next
  case (Cons a it)
  obtain t wr where a: "a = (t, wr)" by (cases a)
  from Cons.prems(1) a obtain r w1 where s: "send e p h ip reqID t wr w = (Inr r, w1)"
    and d: "dispatch_loop e p h ip reqID it (Suc i) (res[i := r], w1) = Inr (rs, w')"
    by (auto split: prod.splits sum.splits)
  have r: "Inr r = fst (send e p h ip reqID t wr w0)"
    using s send_result_indep [of e p h ip reqID t wr w w0] by simp
  from Cons.prems(2) have i: "i < length res" and le: "Suc i + length it \<le> length (res[i := r])"
    by simp_all
  have "take (Suc i) (res[i := r]) = take i res @ [r]"
    using i by (simp add: take_Suc_conv_app_nth)
  with Cons.IH [OF d le] a r show ?case by simp
qed




lemma enumerates_length: "enumerates it m \<Longrightarrow> length it = card (dom m)"
proof -
  assume "enumerates it m"
  then have d: "distinct (map fst it)" and m: "map_of it = m" by (simp_all add: enumerates_def)
  have "card (dom m) = card (set (map fst it))"
    by (simp add: dom_map_of_conv_image_fst flip: m)
  also have "\<dots> = length (map fst it)" using d by (rule distinct_card)
  finally show ?thesis by simp
qed

lemma dispatch_results:
  assumes "enumerates (map_range e m) m"
    and "dispatch e p h ip reqID m w = Inr (rs, w')"
  shows "map Inr rs = map (\<lambda>(t, wr). fst (send e p h ip reqID t wr w0)) (map_range e m)"
  using dispatch_loop_results [of e p h ip reqID "map_range e m" 0
      "replicate (card (dom m)) zero_result" w rs w' w0]
    enumerates_length [OF assms(1)] assms(2)
  by (simp add: dispatch_def)





section \<open>Aggregation\<close>

lemma collect_err_none:
  "\<forall>r \<in> set rs. err r = None \<Longrightarrow> fst (collect rs (er, res)) = er"
  by (induction rs arbitrary: res) auto

lemma collect_err_some:
  "\<exists>r \<in> set rs. err r \<noteq> None \<Longrightarrow>
   \<exists>r \<in> set rs. err r \<noteq> None \<and> fst (collect rs (er, res)) = err r"
proof (induction rs arbitrary: er res)
  case Nil
  then show ?case by simp
next
  case (Cons r rs)
  show ?case
  proof (cases "\<exists>r \<in> set rs. err r \<noteq> None")
    case True
    from Cons.IH [OF True] show ?thesis by (auto split: if_splits)
  next
    case False
    with Cons.prems have "err r \<noteq> None" by auto
    moreover from False have "\<forall>r \<in> set rs. err r = None" by simp
    ultimately show ?thesis by (simp add: collect_err_none)
  qed
qed

lemma collect_res_kept:
  "code res \<noteq> 0 \<Longrightarrow> snd (collect rs (er, res)) = res"
  by (induction rs arbitrary: er) auto

lemma collect_res:
  "\<forall>r \<in> set rs. err r = None \<and> code r \<noteq> 0 \<Longrightarrow> code res = 0 \<Longrightarrow>
   snd (collect rs (er, res))
     = (case find (\<lambda>r. code r < 200 \<or> code r > 299) rs of None \<Rightarrow> res | Some r \<Rightarrow> r)"
  by (induction rs arbitrary: er) (auto simp: collect_res_kept)

lemma respond_error:
  assumes "\<exists>r \<in> set rs. err r \<noteq> None"
  shows "status (respond (collect rs (None, zero_result)) fresh_response) = 500 \<and>
      (\<exists>r \<in> set rs. err r = Some (resp_body (respond (collect rs (None, zero_result)) fresh_response)))"
proof -
  let ?st = "collect rs (None, zero_result)"
  from collect_err_some [OF assms, of None zero_result]
  obtain r msg where rin: "r \<in> set rs" and msg: "err r = Some msg" and "fst ?st = err r"
    by auto
  then have "fst ?st = Some msg" by simp
  then have resp: "respond ?st fresh_response = \<lparr>status = 500, resp_body = msg\<rparr>"
    by (simp add: respond_def ctx_Error_def StatusInternalServerError_def)
  with rin msg show ?thesis by auto
qed

lemma respond_first_non2xx:
  assumes "\<forall>r \<in> set rs. err r = None \<and> code r \<noteq> 0"
    and "find (\<lambda>r. code r < 200 \<or> code r > 299) rs = Some r1"
  shows "respond (collect rs (None, zero_result)) fresh_response
           = \<lparr>status = code r1, resp_body = body r1\<rparr>"
proof -
  let ?st = "collect rs (None, zero_result)"
  from assms(1) have e: "fst ?st = None" by (simp add: collect_err_none)
  from assms have s: "snd ?st = r1" by (simp add: collect_res zero_result_def)
  from assms(2) have "r1 \<in> set rs" by (auto simp: find_Some_iff)
  with assms(1) have "code r1 \<noteq> 0" by blast
  with e s show ?thesis by (simp add: respond_def fresh_response_def)
qed

lemma respond_all_2xx:
  assumes "\<forall>r \<in> set rs. err r = None \<and> 200 \<le> code r \<and> code r \<le> 299"
  shows "respond (collect rs (None, zero_result)) fresh_response = \<lparr>status = 200, resp_body = []\<rparr>"
proof -
  let ?st = "collect rs (None, zero_result)"
  from assms have e: "fst ?st = None" by (simp add: collect_err_none)
  from assms have "find (\<lambda>r. code r < 200 \<or> code r > 299) rs = None"
    by (force simp: find_None_iff)
  moreover from assms have "\<forall>r \<in> set rs. err r = None \<and> code r \<noteq> 0" by force
  ultimately have "snd ?st = zero_result" by (simp add: collect_res zero_result_def)
  with e show ?thesis by (simp add: respond_def fresh_response_def zero_result_def)
qed

section \<open>handle\<close>

lemma handle_push:
  assumes "Path ctx = ''/push''" "Method ctx = ''POST''"
    and "snappy_Decode e (Body ctx) = Inr d" and "proto_Unmarshal e d = Inr vs"
    and "partition_loop (cfg p) [0..<length vs] (unmarshalled vs, Map.empty) = (h, m)"
  shows "handle e p ctx w
     = (case dispatch e p h (RemoteAddr ctx) (uuid_NewRandom e) m (bufferPool_Get w) of
          Inl pn \<Rightarrow> Inl pn
        | Inr (rs, w2) \<Rightarrow>
            Inr (respond (collect rs (None, zero_result)) fresh_response, bufferPool_Put w2))"
  using assms by (simp add: handle_def Let_def)

text \<open>
  C2. What the client of a decoded POST to \<^verbatim>\<open>/push\<close> receives, when \<^verbatim>\<open>dispatch\<close> on its
  partition map returns the results \<open>rs\<close>: \<^verbatim>\<open>handle\<close> returns a response, \<open>rs\<close> are the
  outcomes of \<^verbatim>\<open>send\<close> on the tenant partitions in the order of the \<^verbatim>\<open>range\<close>, and the
  response follows this precedence. If some result is a transport error, the status is
  500 and the body is the message of such an error. Else, results carrying the status
  codes of HTTP responses (never 0), if some code is outside 200..299 the response has the
  status and body of the first such result. Else, all codes being in 200..299 (or there
  being no result), the status is 200 and the body is empty.
\<close>

theorem aggregate_precedence:
  assumes "Path ctx = ''/push''" and "Method ctx = ''POST''"
    and "snappy_Decode e (Body ctx) = Inr d" and "proto_Unmarshal e d = Inr vs"
    and "partition_loop (cfg p) [0..<length vs] (unmarshalled vs, Map.empty) = (h, m)"
    and "enumerates (map_range e m) m"
    and "dispatch e p h (RemoteAddr ctx) (uuid_NewRandom e) m (bufferPool_Get w) = Inr (rs, w2)"
  shows "\<exists>resp w'. handle e p ctx w = Inr (resp, w') \<and>
     map Inr rs = map (\<lambda>(t, wr). fst (send e p h (RemoteAddr ctx) (uuid_NewRandom e) t wr w))
                    (map_range e m) \<and>
     ((\<exists>r \<in> set rs. err r \<noteq> None) \<longrightarrow>
        status resp = 500 \<and> (\<exists>r \<in> set rs. err r = Some (resp_body resp))) \<and>
     ((\<forall>r \<in> set rs. err r = None \<and> code r \<noteq> 0) \<and>
        find (\<lambda>r. code r < 200 \<or> code r > 299) rs = Some r1 \<longrightarrow>
        resp = \<lparr>status = code r1, resp_body = body r1\<rparr>) \<and>
     ((\<forall>r \<in> set rs. err r = None \<and> 200 \<le> code r \<and> code r \<le> 299) \<longrightarrow>
        resp = \<lparr>status = 200, resp_body = []\<rparr>)"
proof -
  let ?resp = "respond (collect rs (None, zero_result)) fresh_response"
  have "handle e p ctx w = Inr (?resp, bufferPool_Put w2)"
    using handle_push [OF assms(1-5), of w] assms(7) by simp
  moreover have "map Inr rs
      = map (\<lambda>(t, wr). fst (send e p h (RemoteAddr ctx) (uuid_NewRandom e) t wr w)) (map_range e m)"
    by (rule dispatch_results [OF assms(6,7)])
  moreover have "(\<exists>r \<in> set rs. err r \<noteq> None) \<longrightarrow>
        status ?resp = 500 \<and> (\<exists>r \<in> set rs. err r = Some (resp_body ?resp))"
    using respond_error [of rs] by blast
  moreover have "(\<forall>r \<in> set rs. err r = None \<and> code r \<noteq> 0) \<and>
        find (\<lambda>r. code r < 200 \<or> code r > 299) rs = Some r1 \<longrightarrow>
        ?resp = \<lparr>status = code r1, resp_body = body r1\<rparr>"
    using respond_first_non2xx [of rs r1] by blast
  moreover have "(\<forall>r \<in> set rs. err r = None \<and> 200 \<le> code r \<and> code r \<le> 299) \<longrightarrow>
        ?resp = \<lparr>status = 200, resp_body = []\<rparr>"
    using respond_all_2xx [of rs] by blast
  ultimately show ?thesis by blast
qed


text \<open>
  C4. A request to \<^verbatim>\<open>/push\<close> whose body does not decompress, or whose decompressed
  bytes do not unmarshal, is answered with status 400 and no outbound call is issued;
  for a POST the body of the answer is the message naming the failed step and its error.
\<close>

theorem decode_failure_bad_request:
  assumes "Path ctx = ''/push''"
    and "snappy_Decode e (Body ctx) = Inl er \<or>
         (snappy_Decode e (Body ctx) = Inr d \<and> proto_Unmarshal e d = Inl er)"
  shows "\<exists>resp w'. handle e p ctx w = Inr (resp, w') \<and>
         status resp = 400 \<and>
         calls w' = calls w \<and>
         (Method ctx = ''POST'' \<longrightarrow>
            resp_body resp
              = (if snappy_Decode e (Body ctx) = Inl er then ''Unable to unpack Snappy: '' @ er
                 else ''Unable to unmarshal protobuf: '' @ er))"
  using assms
  by (auto simp: handle_def Let_def ctx_Error_def StatusBadRequest_def
      bufferPool_Get_def bufferPool_Put_def)

lemma run_flag:
  "run e evs (p, w, out) = Inr (p', w', out') \<Longrightarrow>
   shuttingDown p' = (if Close \<in> set evs then 1 else shuttingDown p)"
proof (induction evs arbitrary: p w out)
  case Nil
  then show ?case by simp
next
  case (Cons ev evs)
  show ?case
  proof (cases ev)
    case (Request ctx)
    with Cons.prems obtain r w1 where "handle e p ctx w = Inr (r, w1)"
      and "run e evs (p, w1, out @ [r]) = Inr (p', w', out')"
      by (auto split: sum.splits prod.splits)
    with Request Cons.IH [of p w1 "out @ [r]"] show ?thesis by simp
  next
    case Close
    with Cons.prems have "run e evs (close p, w, out) = Inr (p', w', out')" by simp
    with Close Cons.IH [of "close p" w out] show ?thesis by (simp add: close_def)
  qed
qed

text \<open>
  C7. The flag is 0 in a new processor. After any run of requests and calls of
  \<^verbatim>\<open>close\<close> it is 1 if \<^verbatim>\<open>close\<close> was called in the run and 0 otherwise: it is set by
  the first \<^verbatim>\<open>close\<close> and never reset. A request to \<^verbatim>\<open>/alive\<close> made after the run
  returns, with status 200 if no \<^verbatim>\<open>close\<close> came before it and 503 if one did.
\<close>

theorem draining_flag:
  assumes "newProcessor c listen_err = Inr p0" and "Path ctx = ''/alive''"
  shows "shuttingDown p0 = 0 \<and>
         (\<forall>p w1 out1. run e evs (p0, w, out) = Inr (p, w1, out1) \<longrightarrow>
            shuttingDown p = (if Close \<in> set evs then 1 else 0) \<and>
            handle e p ctx w'
              = Inr (\<lparr>status = (if Close \<in> set evs then 503 else 200), resp_body = []\<rparr>, w'))"
proof -
  from assms(1) have z: "shuttingDown p0 = 0"
    by (auto simp: newProcessor_def split: option.splits)
  {
    fix p w1 out1
    assume "run e evs (p0, w, out) = Inr (p, w1, out1)"
    from run_flag [OF this] z
    have f: "shuttingDown p = (if Close \<in> set evs then 1 else 0)" by simp
    with assms(2)
    have "handle e p ctx w'
            = Inr (\<lparr>status = (if Close \<in> set evs then 503 else 200), resp_body = []\<rparr>, w')"
      by (simp add: handle_def fresh_response_def StatusServiceUnavailable_def)
    note f this
  }
  with z show ?thesis by blast
qed


section \<open>Examples of requests\<close>

lemma example_batch:
  "partition_loop (cfg example_processor) [0..<length [series_acme, series_plain]]
     (unmarshalled [series_acme, series_plain], Map.empty)
   = (example_store, example_partitions)"
  by (simp add: example_processor_def example_config_def upt_rec [of 0] upt_rec [of 1]
      upt_rec [of 2] series_acme_def series_plain_def processTimeseries_def unmarshalled_def
      Let_def example_store_def example_partitions_def)

lemma example_range:
  "map_range example_env example_partitions
     = [(''acme'', \<lparr>Timeseries = [0]\<rparr>), (''fallback'', \<lparr>Timeseries = [1]\<rparr>)]"
  by (simp add: example_env_def example_partitions_def List.map_filter_simps)

lemma example_enumerates:
  "enumerates [(''acme'', \<lparr>Timeseries = [0]\<rparr>), (''fallback'', \<lparr>Timeseries = [1]\<rparr>)]
     example_partitions"
  by (auto simp: enumerates_def example_partitions_def)

lemma example_wire:
  "proto_Marshal example_env (map example_store [0]) = ''zonebjobnode''"
  "proto_Marshal example_env (map example_store [1]) = ''jobnode''"
  by (simp_all add: example_env_def example_store_def series_plain_def)

lemma example_push:
  "Path (push_request b) = ''/push''" "Method (push_request b) = ''POST''"
  "Body (push_request b) = b" "RemoteAddr (push_request b) = ''10.0.0.7:4242''"
  by (simp_all add: push_request_def)

lemma example_len:
  "grown_len example_env = 64" "grown_len small_buffer_env = 8"
  "map_range small_buffer_env = map_range example_env"
  "proto_Marshal small_buffer_env = proto_Marshal example_env"
  by (simp_all add: example_env_def small_buffer_env_def)

lemma example_MarshalTo:
  "MarshalTo example_env (map example_store [0]) 64 = Inr (''zonebjobnode'', None)"
  "MarshalTo example_env (map example_store [1]) 64 = Inr (''jobnode'', None)"
  unfolding MarshalTo_def example_wire by simp_all

lemma example_send:
  "fst (send example_env example_processor example_store ip reqID ''acme'' \<lparr>Timeseries = [0]\<rparr> w)
     = Inr \<lparr>code = 200, body = [], err = None\<rparr>"
  "fst (send example_env example_processor example_store ip reqID ''fallback'' \<lparr>Timeseries = [1]\<rparr> w)
     = Inr \<lparr>code = 503, body = ''no ingesters'', err = None\<rparr>"
  unfolding send_def WriteRequest.simps example_len example_MarshalTo
  by (simp_all add: Let_def example_env_def example_processor_def example_config_def)




lemma example_dispatch:
  assumes "map_range e example_partitions
             = [(''acme'', \<lparr>Timeseries = [0]\<rparr>), (''fallback'', \<lparr>Timeseries = [1]\<rparr>)]"
    and "\<And>w. fst (send e p h ip reqID ''acme'' \<lparr>Timeseries = [0]\<rparr> w) = Inr r1"
    and "\<And>w. fst (send e p h ip reqID ''fallback'' \<lparr>Timeseries = [1]\<rparr> w) = Inr r2"
  shows "\<exists>w2. dispatch e p h ip reqID example_partitions w = Inr ([r1, r2], w2)"
proof -
  obtain w1 where 1: "send e p h ip reqID ''acme'' \<lparr>Timeseries = [0]\<rparr> w = (Inr r1, w1)"
    using assms(2) [of w] by (cases "send e p h ip reqID ''acme'' \<lparr>Timeseries = [0]\<rparr> w") simp
  obtain w2 where 2: "send e p h ip reqID ''fallback'' \<lparr>Timeseries = [1]\<rparr> w1 = (Inr r2, w2)"
    using assms(3) [of w1]
    by (cases "send e p h ip reqID ''fallback'' \<lparr>Timeseries = [1]\<rparr> w1") simp
  have "card (dom example_partitions) = 2" by (simp add: example_partitions_def)
  then have "dispatch e p h ip reqID example_partitions w = Inr ([r1, r2], w2)"
    unfolding dispatch_def assms(1) by (simp add: 1 2 numeral_2_eq_2 del: One_nat_def)
  then show ?thesis by blast
qed

lemma example_envs:
  "snappy_Decode example_env ''snappy(batch)'' = Inr ''batch''"
  "snappy_Decode unreachable_env ''snappy(batch)'' = Inr ''batch''"
  "snappy_Decode healthy_env ''snappy(batch)'' = Inr ''batch''"
  "snappy_Decode small_buffer_env ''snappy(batch)'' = Inr ''batch''"
  "proto_Unmarshal example_env ''batch'' = Inr [series_acme, series_plain]"
  "proto_Unmarshal unreachable_env ''batch'' = Inr [series_acme, series_plain]"
  "proto_Unmarshal healthy_env ''batch'' = Inr [series_acme, series_plain]"
  "proto_Unmarshal small_buffer_env ''batch'' = Inr [series_acme, series_plain]"
  "map_range unreachable_env = map_range example_env"
  "map_range healthy_env = map_range example_env"
  by (simp_all add: example_env_def unreachable_env_def healthy_env_def small_buffer_env_def)

lemma example_send_unreachable:
  "fst (send unreachable_env example_processor example_store ip reqID ''acme'' \<lparr>Timeseries = [0]\<rparr> w)
     = Inr \<lparr>code = 200, body = [], err = None\<rparr>"
  "fst (send unreachable_env example_processor example_store ip reqID ''fallback'' \<lparr>Timeseries = [1]\<rparr> w)
     = Inr \<lparr>code = 0, body = [], err = Some ''dial tcp 10.0.0.1:9009: connection refused''\<rparr>"
proof -
  have m: "MarshalTo unreachable_env vs (grown_len unreachable_env) = MarshalTo example_env vs 64"
    for vs by (simp add: MarshalTo_def unreachable_env_def example_len)
  show "fst (send unreachable_env example_processor example_store ip reqID ''acme'' \<lparr>Timeseries = [0]\<rparr> w)
     = Inr \<lparr>code = 200, body = [], err = None\<rparr>"
    "fst (send unreachable_env example_processor example_store ip reqID ''fallback'' \<lparr>Timeseries = [1]\<rparr> w)
     = Inr \<lparr>code = 0, body = [], err = Some ''dial tcp 10.0.0.1:9009: connection refused''\<rparr>"
    unfolding send_def WriteRequest.simps m example_MarshalTo
    by (simp_all add: Let_def unreachable_env_def example_env_def example_processor_def
        example_config_def)
qed

lemma example_send_healthy:
  "fst (send healthy_env example_processor example_store ip reqID ''acme'' \<lparr>Timeseries = [0]\<rparr> w)
     = Inr \<lparr>code = 204, body = [], err = None\<rparr>"
  "fst (send healthy_env example_processor example_store ip reqID ''fallback'' \<lparr>Timeseries = [1]\<rparr> w)
     = Inr \<lparr>code = 204, body = [], err = None\<rparr>"
proof -
  have m: "MarshalTo healthy_env vs (grown_len healthy_env) = MarshalTo example_env vs 64"
    for vs by (simp add: MarshalTo_def healthy_env_def example_len)
  show "fst (send healthy_env example_processor example_store ip reqID ''acme'' \<lparr>Timeseries = [0]\<rparr> w)
     = Inr \<lparr>code = 204, body = [], err = None\<rparr>"
    "fst (send healthy_env example_processor example_store ip reqID ''fallback'' \<lparr>Timeseries = [1]\<rparr> w)
     = Inr \<lparr>code = 204, body = [], err = None\<rparr>"
    unfolding send_def WriteRequest.simps m example_MarshalTo
    by (simp_all add: Let_def healthy_env_def example_env_def)
qed

theorem aggregate_precedence_witness:
  "Path (push_request ''snappy(batch)'') = ''/push'' \<and>
   Method (push_request ''snappy(batch)'') = ''POST'' \<and>
   snappy_Decode example_env (Body (push_request ''snappy(batch)'')) = Inr ''batch'' \<and>
   proto_Unmarshal example_env ''batch'' = Inr [series_acme, series_plain] \<and>
   enumerates (map_range example_env example_partitions) example_partitions \<and>
   map_sum id fst (dispatch unreachable_env example_processor example_store
      (RemoteAddr (push_request ''snappy(batch)'')) (uuid_NewRandom unreachable_env)
      example_partitions (bufferPool_Get example_world))
     = Inr [\<lparr>code = 200, body = [], err = None\<rparr>,
            \<lparr>code = 0, body = [], err = Some ''dial tcp 10.0.0.1:9009: connection refused''\<rparr>] \<and>
   map_sum id fst (handle unreachable_env example_processor (push_request ''snappy(batch)'')
      example_world)
     = Inr \<lparr>status = 500, resp_body = ''dial tcp 10.0.0.1:9009: connection refused''\<rparr> \<and>
   map_sum id fst (dispatch example_env example_processor example_store
      (RemoteAddr (push_request ''snappy(batch)'')) (uuid_NewRandom example_env)
      example_partitions (bufferPool_Get example_world))
     = Inr [\<lparr>code = 200, body = [], err = None\<rparr>,
            \<lparr>code = 503, body = ''no ingesters'', err = None\<rparr>] \<and>
   map_sum id fst (handle example_env example_processor (push_request ''snappy(batch)'')
      example_world)
     = Inr \<lparr>status = 503, resp_body = ''no ingesters''\<rparr> \<and>
   map_sum id fst (dispatch healthy_env example_processor example_store
      (RemoteAddr (push_request ''snappy(batch)'')) (uuid_NewRandom healthy_env)
      example_partitions (bufferPool_Get example_world))
     = Inr [\<lparr>code = 204, body = [], err = None\<rparr>, \<lparr>code = 204, body = [], err = None\<rparr>] \<and>
   map_sum id fst (handle healthy_env example_processor (push_request ''snappy(batch)'')
      example_world)
     = Inr \<lparr>status = 200, resp_body = []\<rparr>"
proof -
  let ?ctx = "push_request ''snappy(batch)''"
  let ?w = "bufferPool_Get example_world"
  let ?ok = "\<lparr>code = 200, body = [], err = None\<rparr>"
  let ?refused = "\<lparr>code = 0, body = [], err = Some ''dial tcp 10.0.0.1:9009: connection refused''\<rparr>"
  let ?busy = "\<lparr>code = 503, body = ''no ingesters'', err = None\<rparr>"
  let ?done = "\<lparr>code = 204, body = [], err = None\<rparr>"
  have en: "enumerates (map_range example_env example_partitions) example_partitions"
    unfolding example_range by (rule example_enumerates)
  have d1: "snappy_Decode example_env (Body ?ctx) = Inr ''batch''"
    and d2: "snappy_Decode unreachable_env (Body ?ctx) = Inr ''batch''"
    and d3: "snappy_Decode healthy_env (Body ?ctx) = Inr ''batch''"
    unfolding example_push by (rule example_envs)+
  have ru: "map_range unreachable_env example_partitions
      = [(''acme'', \<lparr>Timeseries = [0]\<rparr>), (''fallback'', \<lparr>Timeseries = [1]\<rparr>)]"
    and rh: "map_range healthy_env example_partitions
      = [(''acme'', \<lparr>Timeseries = [0]\<rparr>), (''fallback'', \<lparr>Timeseries = [1]\<rparr>)]"
    unfolding example_envs by (rule example_range)+
  from en have enu: "enumerates (map_range unreachable_env example_partitions) example_partitions"
    and enh: "enumerates (map_range healthy_env example_partitions) example_partitions"
    unfolding example_envs by simp_all
  \<comment> \<open>a transport error among the results\<close>
  obtain w2 where a: "dispatch unreachable_env example_processor example_store (RemoteAddr ?ctx)
      (uuid_NewRandom unreachable_env) example_partitions ?w = Inr ([?ok, ?refused], w2)"
    using example_dispatch [OF ru example_send_unreachable] by blast
  from aggregate_precedence [OF example_push(1,2) d2 example_envs(6) example_batch enu a]
  have A: "map_sum id fst (handle unreachable_env example_processor ?ctx example_world)
      = Inr \<lparr>status = 500, resp_body = ''dial tcp 10.0.0.1:9009: connection refused''\<rparr>"
    by auto
  \<comment> \<open>no transport error, a code outside 200..299\<close>
  obtain w3 where b: "dispatch example_env example_processor example_store (RemoteAddr ?ctx)
      (uuid_NewRandom example_env) example_partitions ?w = Inr ([?ok, ?busy], w3)"
    using example_dispatch [OF example_range example_send] by blast
  from aggregate_precedence [OF example_push(1,2) d1 example_envs(5) example_batch en b,
      of ?busy]
  have B: "map_sum id fst (handle example_env example_processor ?ctx example_world)
      = Inr \<lparr>status = 503, resp_body = ''no ingesters''\<rparr>"
    by auto
  \<comment> \<open>all codes in 200..299\<close>
  obtain w4 where c: "dispatch healthy_env example_processor example_store (RemoteAddr ?ctx)
      (uuid_NewRandom healthy_env) example_partitions ?w = Inr ([?done, ?done], w4)"
    using example_dispatch [OF rh example_send_healthy] by blast
  from aggregate_precedence [OF example_push(1,2) d3 example_envs(7) example_batch enh c]
  have C: "map_sum id fst (handle healthy_env example_processor ?ctx example_world)
      = Inr \<lparr>status = 200, resp_body = []\<rparr>"
    by auto
  from example_push(1,2) d1 example_envs(5) en a A b B c C show ?thesis by simp
qed


theorem decode_failure_bad_request_witness:
  "Path (push_request ''garbage'') = ''/push'' \<and>
   snappy_Decode example_env (Body (push_request ''garbage'')) = Inl ''snappy: corrupt input'' \<and>
   handle example_env example_processor (push_request ''garbage'') example_world
     = Inr (\<lparr>status = 400, resp_body = ''Unable to unpack Snappy: snappy: corrupt input''\<rparr>,
            example_world) \<and>
   snappy_Decode example_env (Body (push_request ''snappy(junk)'')) = Inr ''junk'' \<and>
   proto_Unmarshal example_env ''junk'' = Inl ''proto: illegal wireType 7'' \<and>
   handle example_env example_processor (push_request ''snappy(junk)'') example_world
     = Inr (\<lparr>status = 400, resp_body = ''Unable to unmarshal protobuf: proto: illegal wireType 7''\<rparr>,
            example_world)"
  using decode_failure_bad_request [of "push_request ''garbage''" example_env
      "''snappy: corrupt input''" "[]" example_processor example_world]
    decode_failure_bad_request [of "push_request ''snappy(junk)''" example_env
      "''proto: illegal wireType 7''" "''junk''" example_processor example_world]
  by (simp add: push_request_def example_env_def example_world_def handle_def Let_def
      ctx_Error_def StatusBadRequest_def bufferPool_Get_def bufferPool_Put_def)

theorem draining_flag_witness:
  "newProcessor (example_config True) None = Inr example_processor \<and>
   Path alive_request = ''/alive'' \<and>
   shuttingDown example_processor = 0 \<and>
   run example_env [] (example_processor, example_world, [])
     = Inr (example_processor, example_world, []) \<and>
   handle example_env example_processor alive_request example_world
     = Inr (\<lparr>status = 200, resp_body = []\<rparr>, example_world) \<and>
   run example_env [Request alive_request, Close, Request alive_request]
      (example_processor, example_world, [])
     = Inr (close example_processor, example_world,
            [\<lparr>status = 200, resp_body = []\<rparr>, \<lparr>status = 503, resp_body = []\<rparr>]) \<and>
   shuttingDown (close example_processor) = 1 \<and>
   handle example_env (close example_processor) alive_request example_world
     = Inr (\<lparr>status = 503, resp_body = []\<rparr>, example_world)"
proof -
  have n: "newProcessor (example_config True) None = Inr example_processor"
    by (simp add: newProcessor_def example_processor_def)
  have a: "Path alive_request = ''/alive''" by (simp add: alive_request_def)
  have r0: "run example_env [] (example_processor, example_world, [])
              = Inr (example_processor, example_world, [])"
    by simp
  have r: "run example_env [Request alive_request, Close, Request alive_request]
      (example_processor, example_world, [])
     = Inr (close example_processor, example_world,
            [\<lparr>status = 200, resp_body = []\<rparr>, \<lparr>status = 503, resp_body = []\<rparr>])"
    by (simp add: handle_def alive_request_def example_processor_def close_def
        fresh_response_def StatusServiceUnavailable_def)
  from draining_flag [OF n a, of example_env "[]" example_world "[]" example_world]
    draining_flag [OF n a, of example_env "[Request alive_request, Close, Request alive_request]"
      example_world "[]" example_world]
  show ?thesis using n a r0 r by simp
qed


end
